theory Spec2Isabelle
  imports Complex_Main "HOL-Library.Word"
begin

section \<open>The server and client of the background-removal demo\<close>

text \<open>
  The source file holds two programs: the browser client (model loading, local background
  removal, upload, camera capture) and the Express server (\<open>POST /upload\<close>,
  \<open>POST /create-video\<close>, \<open>POST /upload-url\<close>). Both are glue around libraries
  (Node's \<open>fs\<close> and \<open>path\<close>, the S3 SDK, editly, multer, uuid, transformers.js).
  The handlers are embedded as functions on an explicit world (local disk, bucket,
  console, and the ordered list of library calls made); a JavaScript exception is the
  \<open>Inl\<close> of a sum and carries the error's message. What a library call answers is read
  from a record of the surroundings, so that every failure the code can meet is an input.
\<close>

subsection \<open>Values\<close>

type_synonym bytes = "8 word list"

text \<open>
  A field of a JSON body or of \<open>process.env\<close> is absent (\<open>undefined\<close>) or a string.
  JavaScript's truth test on such a value, as in \<open>if (s3Key)\<close> and \<open>a || b\<close>: the absent
  value and the empty string are false.
\<close>

definition truthy :: "string option \<Rightarrow> bool" where
  "truthy v = (case v of None \<Rightarrow> False | Some s \<Rightarrow> s \<noteq> [])"

definition or_default :: "string option \<Rightarrow> string \<Rightarrow> string" where
  "or_default v d = (case v of None \<Rightarrow> d | Some s \<Rightarrow> if s = [] then d else s)"

definition startsWith :: "string \<Rightarrow> string \<Rightarrow> bool" where
  "startsWith s p = (take (length p) s = p)"

definition substring :: "string \<Rightarrow> nat \<Rightarrow> string" where
  "substring s n = drop n s"

subsection \<open>The configuration object given to editly\<close>

datatype layer_type = Video | Image

datatype resize_mode = Cover | Contain

datatype position = Center | At rat rat

record audio_track =
  track_path :: string
  volume :: nat

record layer =
  layer_type :: layer_type
  layer_path :: string
  position :: position
  resizeMode :: resize_mode
  start :: "nat option"
  layer_width :: "string option"
  layer_height :: "string option"

record clip =
  duration :: nat
  layers :: "layer list"

record editly_config =
  outPath :: string
  width :: nat
  height :: nat
  fps :: nat
  audioTracks :: "audio_track list"
  clips :: "clip list"

subsection \<open>The world of the server\<close>

datatype stream_event = Data bytes | Error string

datatype event =
    FsExists string
  | FsRead string
  | FsWrite string
  | FsCopy string string
  | FsUnlink string
  | S3Get string string
  | S3Put string string string
  | Presign string string nat
  | Editly editly_config
  | Fetch "string option"

record world =
  files :: "string \<rightharpoonup> bytes"
  objects :: "string \<rightharpoonup> bytes \<times> string"
  console :: "string list"
  trace :: "event list"

text \<open>
  The surroundings of one request: the module constants (\<open>__dirname\<close>,
  \<open>process.env\<close>), the token \<open>uuidv4()\<close> returns in this request, the functions of
  Node's \<open>path\<close>, and the answer of every call that leaves the process. A fault is the
  message of the error the call throws.
\<close>

record sys =
  dirname :: string
  env :: "string \<rightharpoonup> string"
  uuidv4 :: string
  path_join :: "string \<Rightarrow> string \<Rightarrow> string"
  path_isAbsolute :: "string \<Rightarrow> bool"
  path_basename :: "string \<Rightarrow> string"
  path_extname :: "string \<Rightarrow> string"
  fs_write_fault :: "string \<Rightarrow> string option"
  fs_unlink_fault :: "string \<Rightarrow> string option"
  s3_get :: "string \<Rightarrow> string + stream_event list"
  s3_put_fault :: "string \<Rightarrow> string option"
  presign :: "string \<Rightarrow> nat \<Rightarrow> string + string"
  editly_run :: "editly_config \<Rightarrow> string + bytes"
  fetch_url :: "string option \<Rightarrow> string + bytes"
  mkdir_fault :: "string \<Rightarrow> string option"
  listen_fault :: "string \<Rightarrow> string option"

subsection \<open>Actions: state passing with exceptions\<close>

type_synonym 'a action = "world \<Rightarrow> (string + 'a) \<times> world"

definition return :: "'a \<Rightarrow> 'a action" where
  "return x w = (Inr x, w)"

definition throw :: "string \<Rightarrow> 'a action" where
  "throw m w = (Inl m, w)"

definition bind :: "'a action \<Rightarrow> ('a \<Rightarrow> 'b action) \<Rightarrow> 'b action" where
  "bind act f w = (case act w of (Inl m, w') \<Rightarrow> (Inl m, w') | (Inr x, w') \<Rightarrow> f x w')"

definition try_catch :: "'a action \<Rightarrow> (string \<Rightarrow> 'a action) \<Rightarrow> 'a action" where
  "try_catch act h w = (case act w of (Inl m, w') \<Rightarrow> h m w' | (Inr x, w') \<Rightarrow> (Inr x, w'))"

definition called :: "event \<Rightarrow> world \<Rightarrow> world" where
  "called e w = w\<lparr>trace := trace w @ [e]\<rparr>"

definition console_error :: "string \<Rightarrow> unit action" where
  "console_error line w = (Inr (), w\<lparr>console := console w @ [line]\<rparr>)"

subsection \<open>Module constants (lines 397, 436, 439, 440)\<close>

definition port :: "sys \<Rightarrow> string" where
  "port s = or_default (env s ''PORT'') ''3000''"

definition BUCKET_NAME :: "sys \<Rightarrow> string" where
  "BUCKET_NAME s = or_default (env s ''S3_BUCKET_NAME'') ''your-bucket-name''"

definition uploadsDir :: "sys \<Rightarrow> string" where
  "uploadsDir s = path_join s (dirname s) ''uploads''"

definition tempDir :: "sys \<Rightarrow> string" where
  "tempDir s = path_join s (dirname s) ''temp''"

subsection \<open>The library calls\<close>

definition existsSync :: "string \<Rightarrow> bool action" where
  "existsSync p w = (Inr (files w p \<noteq> None), called (FsExists p) w)"

definition readFileSync :: "string \<Rightarrow> bytes action" where
  "readFileSync p w =
     (case files w p of
        None \<Rightarrow> (Inl (''ENOENT: no such file or directory, open '' @ p), called (FsRead p) w)
      | Some b \<Rightarrow> (Inr b, called (FsRead p) w))"

definition writeFileSync :: "sys \<Rightarrow> string \<Rightarrow> bytes \<Rightarrow> unit action" where
  "writeFileSync s p b w =
     (case fs_write_fault s p of
        Some m \<Rightarrow> (Inl m, called (FsWrite p) w)
      | None \<Rightarrow> (Inr (), (called (FsWrite p) w)\<lparr>files := (files w)(p \<mapsto> b)\<rparr>))"

definition copyFileSync :: "sys \<Rightarrow> string \<Rightarrow> string \<Rightarrow> unit action" where
  "copyFileSync s src dst w =
     (case files w src of
        None \<Rightarrow> (Inl (''ENOENT: no such file or directory, copyfile '' @ src), called (FsCopy src dst) w)
      | Some b \<Rightarrow>
          (case fs_write_fault s dst of
             Some m \<Rightarrow> (Inl m, called (FsCopy src dst) w)
           | None \<Rightarrow> (Inr (), (called (FsCopy src dst) w)\<lparr>files := (files w)(dst \<mapsto> b)\<rparr>)))"

definition unlinkSync :: "sys \<Rightarrow> string \<Rightarrow> unit action" where
  "unlinkSync s p w =
     (case fs_unlink_fault s p of
        Some m \<Rightarrow> (Inl m, called (FsUnlink p) w)
      | None \<Rightarrow>
          (case files w p of
             None \<Rightarrow> (Inl (''ENOENT: no such file or directory, unlink '' @ p), called (FsUnlink p) w)
           | Some b \<Rightarrow> (Inr (), (called (FsUnlink p) w)\<lparr>files := (files w)(p := None)\<rparr>)))"

text \<open>\<open>s3Client.send(new GetObjectCommand({Bucket, Key}))\<close>: the body stream, or the error.\<close>

definition send_GetObject :: "sys \<Rightarrow> string \<Rightarrow> string \<Rightarrow> stream_event list action" where
  "send_GetObject s bucket key w = (s3_get s key, called (S3Get bucket key) w)"

text \<open>\<open>s3Client.send(new PutObjectCommand({Bucket, Key, Body, ContentType}))\<close>.\<close>

definition send_PutObject :: "sys \<Rightarrow> string \<Rightarrow> string \<Rightarrow> bytes \<Rightarrow> string \<Rightarrow> unit action" where
  "send_PutObject s bucket key body ctype w =
     (case s3_put_fault s key of
        Some m \<Rightarrow> (Inl m, called (S3Put bucket key ctype) w)
      | None \<Rightarrow> (Inr (), (called (S3Put bucket key ctype) w)\<lparr>objects := (objects w)(key \<mapsto> (body, ctype))\<rparr>))"

text \<open>\<open>getSignedUrl(s3Client, new GetObjectCommand({Bucket, Key}), {expiresIn})\<close>.\<close>

definition getSignedUrl :: "sys \<Rightarrow> string \<Rightarrow> string \<Rightarrow> nat \<Rightarrow> string action" where
  "getSignedUrl s bucket key expiresIn w =
     (presign s key expiresIn, called (Presign bucket key expiresIn) w)"

text \<open>\<open>await editly(config)\<close>: the rendered file appears at \<open>outPath\<close>, or the call throws.\<close>

definition editly :: "sys \<Rightarrow> editly_config \<Rightarrow> unit action" where
  "editly s cfg w =
     (case editly_run s cfg of
        Inl m \<Rightarrow> (Inl m, called (Editly cfg) w)
      | Inr video \<Rightarrow> (Inr (), (called (Editly cfg) w)\<lparr>files := (files w)(outPath cfg \<mapsto> video)\<rparr>))"

text \<open>
  \<open>streamToBuffer\<close> (lines 646-653): the chunks of the \<open>data\<close> events are collected and
  concatenated at \<open>end\<close>, which is the end of the list; an \<open>error\<close> event rejects.
\<close>

fun collect :: "stream_event list \<Rightarrow> bytes list \<Rightarrow> string + bytes" where
  "collect [] chunks = Inr (concat chunks)"
| "collect (Data chunk # es) chunks = collect es (chunks @ [chunk])"
| "collect (Error m # es) chunks = Inl m"

definition streamToBuffer :: "stream_event list \<Rightarrow> bytes action" where
  "streamToBuffer stream w = (collect stream [], w)"

subsection \<open>Requests and responses\<close>

text \<open>
  The JSON body of \<open>POST /create-video\<close>, \<open>{imagePath?, s3Key?, text?}\<close>, with the
  fields as the interface has them, strings or absent. What a handler answers is the
  status (200 when the code sets none) and the JSON body:
  \<open>VideoBody videoUrl videoId\<close> is \<open>{success: true, videoUrl, videoId}\<close>,
  \<open>ImageBody imagePath s3Key imageUrl\<close> is \<open>{success: true, imagePath, s3Key, imageUrl}\<close>,
  \<open>ErrorBody error\<close> is \<open>{success: false, error}\<close>.
\<close>

record create_video_request =
  imagePath :: "string option"
  s3Key :: "string option"
  text_field :: "string option"

datatype body =
    VideoBody string string
  | ImageBody string string string
  | ErrorBody string

type_synonym response = "nat \<times> body"

subsection \<open>\<open>POST /create-video\<close> (lines 502-643)\<close>

text \<open>Lines 532-534: the local path the fallback branch reads.\<close>

definition absoluteImagePath :: "sys \<Rightarrow> string \<Rightarrow> string" where
  "absoluteImagePath s p =
     (if path_isAbsolute s p then p
      else path_join s (dirname s) (if startsWith p ''/'' then substring p 1 else p))"

text \<open>Lines 513-547: the source image is brought to \<open>tempImagePath\<close>.\<close>

definition fetch_source :: "sys \<Rightarrow> create_video_request \<Rightarrow> string \<Rightarrow> unit action" where
  "fetch_source s rq tempImagePath =
     (if truthy (s3Key rq) then
        try_catch
          (bind (send_GetObject s (BUCKET_NAME s) (or_default (s3Key rq) [])) (\<lambda>Body.
           bind (streamToBuffer Body) (\<lambda>imageBuffer.
           writeFileSync s tempImagePath imageBuffer)))
          (\<lambda>s3Error.
             bind (console_error (''Error fetching from S3: '' @ s3Error)) (\<lambda>_.
             throw (''Failed to fetch image from S3: '' @ s3Error)))
      else if truthy (imagePath rq) then
        try_catch
          (bind (existsSync (absoluteImagePath s (or_default (imagePath rq) []))) (\<lambda>found.
           if \<not> found then
             throw (''Local image file not found: '' @ absoluteImagePath s (or_default (imagePath rq) []))
           else copyFileSync s (absoluteImagePath s (or_default (imagePath rq) [])) tempImagePath))
          (\<lambda>fileError.
             bind (console_error (''Error accessing local file: '' @ fileError)) (\<lambda>_.
             throw (''Failed to access local image: '' @ fileError)))
      else throw ''No image source provided (neither S3 key nor local path)'')"

text \<open>Lines 550-586: the object literal passed to editly.\<close>

definition video_config :: "string \<Rightarrow> string \<Rightarrow> string \<Rightarrow> string \<Rightarrow> editly_config" where
  "video_config videoPath audioFilePath videoFilePath tempImagePath =
     \<lparr>outPath = videoPath,
      width = 480,
      height = 854,
      fps = 30,
      audioTracks = [\<lparr>track_path = audioFilePath, volume = 1\<rparr>],
      clips =
        [\<lparr>duration = 9,
          layers =
            [\<lparr>layer_type = Video, layer_path = videoFilePath, position = Center,
              resizeMode = Cover, start = None, layer_width = None, layer_height = None\<rparr>,
             \<lparr>layer_type = Image, layer_path = tempImagePath, position = At 0.5 0.45,
              resizeMode = Contain, start = Some 3, layer_width = Some ''10%'',
              layer_height = Some ''10%''\<rparr>]\<rparr>]\<rparr>"

text \<open>Lines 591-605: the rendered file is read and put under \<open>s3VideoKey\<close>.\<close>

definition upload_video :: "sys \<Rightarrow> string \<Rightarrow> string \<Rightarrow> unit action" where
  "upload_video s videoPath s3VideoKey =
     try_catch
       (bind (readFileSync videoPath) (\<lambda>fileContent.
        send_PutObject s (BUCKET_NAME s) s3VideoKey fileContent ''video/mp4''))
       (\<lambda>uploadError.
          bind (console_error (''Error uploading video to S3: '' @ uploadError)) (\<lambda>_.
          throw (''Failed to upload video to S3: '' @ uploadError)))"

text \<open>Lines 621-627: the body of the cleanup's \<open>try\<close> block.\<close>

definition delete_temporary_files :: "sys \<Rightarrow> string \<Rightarrow> string \<Rightarrow> unit action" where
  "delete_temporary_files s videoPath tempImagePath =
     bind (existsSync videoPath) (\<lambda>video_there.
     bind (if video_there then unlinkSync s videoPath else return ()) (\<lambda>_.
     bind (existsSync tempImagePath) (\<lambda>image_there.
     if image_there then unlinkSync s tempImagePath else return ())))"

text \<open>Lines 619-631: the temporary files are deleted; an error is logged and dropped.\<close>

definition cleanup :: "sys \<Rightarrow> string \<Rightarrow> string \<Rightarrow> unit action" where
  "cleanup s videoPath tempImagePath =
     try_catch (delete_temporary_files s videoPath tempImagePath)
       (\<lambda>cleanupError. console_error (''Error cleaning up temporary files: '' @ cleanupError))"

text \<open>
  Lines 504-617, the part of the \<open>try\<close> block before the cleanup: it returns the
  presigned URL.
\<close>

definition render_and_store :: "sys \<Rightarrow> create_video_request \<Rightarrow> string action" where
  "render_and_store s rq =
     (let videoId = uuidv4 s;
          tempImagePath = path_join s (tempDir s) (''temp-image-'' @ videoId @ ''.png'');
          videoPath = path_join s (tempDir s) (videoId @ ''.mp4'');
          videoFilePath = path_join s (dirname s) ''assets/video.mp4'';
          audioFilePath = path_join s (dirname s) ''assets/music.m4a'';
          s3VideoKey = ''videos/hosamani-family-video-'' @ videoId @ ''.mp4''
      in bind (fetch_source s rq tempImagePath) (\<lambda>_.
         bind (editly s (video_config videoPath audioFilePath videoFilePath tempImagePath)) (\<lambda>_.
         bind (upload_video s videoPath s3VideoKey) (\<lambda>_.
         getSignedUrl s (BUCKET_NAME s) s3VideoKey 3600))))"

text \<open>The handler: the \<open>try\<close> block and its \<open>catch\<close> (lines 639-642).\<close>

definition create_video :: "sys \<Rightarrow> create_video_request \<Rightarrow> response action" where
  "create_video s rq =
     try_catch
       (bind (render_and_store s rq) (\<lambda>presignedUrl.
        bind (cleanup s
                (path_join s (tempDir s) (uuidv4 s @ ''.mp4''))
                (path_join s (tempDir s) (''temp-image-'' @ uuidv4 s @ ''.png''))) (\<lambda>_.
        return (200, VideoBody presignedUrl (uuidv4 s)))))
       (\<lambda>error.
          bind (console_error (''Error creating video: '' @ error)) (\<lambda>_.
          return (500, ErrorBody error)))"

text \<open>
  One request served on a given disk and bucket: the console and the list of calls
  start empty, so that they hold what this request wrote and called.
\<close>

definition serve :: "'a action \<Rightarrow> (string \<rightharpoonup> bytes) \<Rightarrow> (string \<rightharpoonup> bytes \<times> string) \<Rightarrow> (string + 'a) \<times> world" where
  "serve act disk bucket = act \<lparr>files = disk, objects = bucket, console = [], trace = []\<rparr>"

subsection \<open>\<open>POST /upload\<close> (lines 411-420, 455-499)\<close>

text \<open>
  The multipart field \<open>image\<close>, when the request carries one. \<open>upload.single('image')\<close>
  runs first: with multer's disk storage the file is written under the destination
  \<open>uploads/\<close> with the name the \<open>filename\<close> callback gives, and \<open>req.file.path\<close> is that
  path; with no file in the field, \<open>req.file\<close> stays undefined.
\<close>

record upload_file =
  originalname :: string
  content :: bytes

definition filename :: "sys \<Rightarrow> upload_file \<Rightarrow> string" where
  "filename s file = uuidv4 s @ path_extname s (originalname file)"

definition upload_single :: "sys \<Rightarrow> upload_file option \<Rightarrow> string option action" where
  "upload_single s field =
     (case field of
        None \<Rightarrow> return None
      | Some file \<Rightarrow>
          bind (writeFileSync s (path_join s ''uploads/'' (filename s file)) (content file)) (\<lambda>_.
          return (Some (path_join s ''uploads/'' (filename s file)))))"

text \<open>
  The message of the TypeError that reading \<open>req.file.path\<close> throws when \<open>req.file\<close> is
  undefined: \<^verbatim>\<open>Cannot read properties of undefined (reading 'path')\<close>.
\<close>

definition undefined_path :: string where
  "undefined_path =
     ''Cannot read properties of undefined (reading '' @ [CHR 0x27] @ ''path'' @ [CHR 0x27] @ '')''"

definition upload_handler :: "sys \<Rightarrow> string option \<Rightarrow> response action" where
  "upload_handler s req_file =
     try_catch
       (bind (case req_file of
                None \<Rightarrow> throw undefined_path
              | Some p \<Rightarrow> return p) (\<lambda>imagePath.
        bind (existsSync imagePath) (\<lambda>found.
        if \<not> found then throw (''File not found: '' @ imagePath)
        else
          bind (readFileSync imagePath) (\<lambda>fileContent.
          bind (send_PutObject s (BUCKET_NAME s) (''uploads/'' @ path_basename s imagePath)
                  fileContent ''image/png'') (\<lambda>_.
          bind (getSignedUrl s (BUCKET_NAME s) (''uploads/'' @ path_basename s imagePath) 3600)
            (\<lambda>presignedUrl.
          return (200, ImageBody imagePath (''uploads/'' @ path_basename s imagePath) presignedUrl)))))))
       (\<lambda>error.
          bind (console_error (''Error processing image: '' @ error)) (\<lambda>_.
          return (500, ErrorBody error)))"

definition upload :: "sys \<Rightarrow> upload_file option \<Rightarrow> response action" where
  "upload s field = bind (upload_single s field) (upload_handler s)"

subsection \<open>\<open>POST /upload-url\<close> (lines 656-700)\<close>

text \<open>\<open>fetch(url)\<close> followed by \<open>response.arrayBuffer()\<close>.\<close>

definition fetch :: "sys \<Rightarrow> string option \<Rightarrow> bytes action" where
  "fetch s url w = (fetch_url s url, called (Fetch url) w)"

definition upload_url :: "sys \<Rightarrow> string option \<Rightarrow> response action" where
  "upload_url s url =
     try_catch
       (let filename = ''url-image-'' @ uuidv4 s @ ''.jpg'';
            imagePath = path_join s (uploadsDir s) filename;
            s3Key = ''uploads/'' @ filename
        in bind (fetch s url) (\<lambda>buffer.
           bind (writeFileSync s imagePath buffer) (\<lambda>_.
           bind (send_PutObject s (BUCKET_NAME s) s3Key buffer ''image/jpeg'') (\<lambda>_.
           bind (getSignedUrl s (BUCKET_NAME s) s3Key 3600) (\<lambda>presignedUrl.
           return (200, ImageBody imagePath s3Key presignedUrl))))))
       (\<lambda>error.
          bind (console_error (''Error downloading image: '' @ error)) (\<lambda>_.
          return (500, ErrorBody error)))"

subsection \<open>The routes\<close>

datatype request =
    PostUpload "upload_file option"
  | PostCreateVideo create_video_request
  | PostUploadUrl "string option"

fun route :: "sys \<Rightarrow> request \<Rightarrow> response action" where
  "route s (PostUpload field) = upload s field"
| "route s (PostCreateVideo rq) = create_video s rq"
| "route s (PostUploadUrl url) = upload_url s url"

subsection \<open>Start of the server (lines 397, 428-447, 702)\<close>

text \<open>
  What the module's top level does with \<open>process.env\<close> and the disk when it loads: it
  reads the port, builds the options of \<open>new S3Client\<close> and the bucket name, creates the
  two directories where they are missing, and listens. \<open>mkdir_fault s dir\<close> is what
  lines 444-446 throw for a directory (nothing when it exists or is created), and
  \<open>listen_fault s port\<close> is what \<open>app.listen(port)\<close> throws: Node refuses a port that
  is not an integer from 0 to 65535 with the RangeError \<open>ERR_SOCKET_BAD_PORT\<close>. \<open>Inl\<close> is
  an error thrown while the module loads, which ends the process. The live-reload server
  and the static routes (lines 400-425) are left out.
\<close>

record s3_options =
  region :: string
  accessKeyId :: "string option"
  secretAccessKey :: "string option"

record server =
  listen_port :: string
  s3Client :: s3_options
  bucket :: string

text \<open>Lines 443-447: the \<open>forEach\<close> over the directories stops at the first error.\<close>

fun create_missing :: "sys \<Rightarrow> string list \<Rightarrow> string option" where
  "create_missing s [] = None"
| "create_missing s (dir # dirs) =
     (case mkdir_fault s dir of Some m \<Rightarrow> Some m | None \<Rightarrow> create_missing s dirs)"

definition startup :: "sys \<Rightarrow> string + server" where
  "startup s =
     (let s3Client = \<lparr>region = or_default (env s ''AWS_REGION'') ''us-east-1'',
                      accessKeyId = env s ''AWS_ACCESS_KEY_ID'',
                      secretAccessKey = env s ''AWS_SECRET_ACCESS_KEY''\<rparr>
      in case create_missing s [uploadsDir s, tempDir s] of
           Some m \<Rightarrow> Inl m
         | None \<Rightarrow>
             (case listen_fault s (port s) of
                Some m \<Rightarrow> Inl m
              | None \<Rightarrow> Inr \<lparr>listen_port = port s, s3Client = s3Client, bucket = BUCKET_NAME s\<rparr>))"

subsection \<open>The tokens of \<open>uuidv4()\<close>\<close>

text \<open>
  The layout of a version 4 UUID as the \<open>uuid\<close> package prints it: 36 characters,
  lower-case hexadecimal digits in groups of 8, 4, 4, 4 and 12 separated by hyphens, the
  version digit 4 and a variant digit among 8, 9, a, b.
\<close>

definition hex_digit :: "char \<Rightarrow> bool" where
  "hex_digit c \<longleftrightarrow> c \<in> set ''0123456789abcdef''"

definition uuid_char :: "char \<Rightarrow> char \<Rightarrow> bool" where
  "uuid_char c l =
     (if l = CHR ''x'' then hex_digit c
      else if l = CHR ''y'' then c \<in> set ''89ab''
      else c = l)"

definition is_uuid :: "string \<Rightarrow> bool" where
  "is_uuid u = list_all2 uuid_char u ''xxxxxxxx-xxxx-4xxx-yxxx-xxxxxxxxxxxx''"

subsection \<open>The client: \<open>processImageLocally\<close> (lines 168-220)\<close>

text \<open>
  A \<open>RawImage\<close> of transformers.js: width, height, number of channels and the bytes,
  one per channel and pixel, row by row.
\<close>

record raw_image =
  image_width :: nat
  image_height :: nat
  channels :: nat
  data :: bytes

text \<open>
  What the function calls: \<open>RawImage.fromURL\<close>, the globals \<open>processor\<close> and \<open>model\<close>
  (undefined until \<open>loadModel\<close> has set them; \<open>model\<close> here yields
  \<open>output[0].mul(255).to("uint8")\<close>), \<open>RawImage.fromTensor\<close> and \<open>resize\<close>. The type
  \<open>'t\<close> is that of tensors.
\<close>

record 't vision =
  fromURL :: "string \<Rightarrow> string + raw_image"
  processor :: "(raw_image \<Rightarrow> string + 't) option"
  model :: "('t \<Rightarrow> string + 't) option"
  fromTensor :: "'t \<Rightarrow> string + raw_image"
  resize :: "raw_image \<Rightarrow> nat \<Rightarrow> nat \<Rightarrow> string + raw_image"

text \<open>Reading a typed array: an index out of range reads as undefined, stored as 0.\<close>

definition byte_at :: "bytes \<Rightarrow> nat \<Rightarrow> 8 word" where
  "byte_at xs i = (if i < length xs then xs ! i else 0)"

text \<open>
  \<open>RawImage.putAlpha(mask)\<close> of transformers.js: the mask must have the image's size and
  one channel; an RGB image becomes RGBA with the mask as alpha, an RGBA image has its
  alpha bytes overwritten, any other image is refused. (The library's messages also print
  the sizes.)
\<close>

definition putAlpha :: "raw_image \<Rightarrow> raw_image \<Rightarrow> string + raw_image" where
  "putAlpha img alpha =
     (let num_pixels = image_width img * image_height img in
      if image_width alpha \<noteq> image_width img \<or> image_height alpha \<noteq> image_height img
      then Inl ''Expected mask size to be the size of the image''
      else if channels alpha \<noteq> 1 then Inl ''Expected mask to have 1 channel''
      else if channels img = 3 then
        Inr (img\<lparr>channels := 4,
                   data := concat (map (\<lambda>i. [byte_at (data img) (3 * i), byte_at (data img) (3 * i + 1),
                                               byte_at (data img) (3 * i + 2), byte_at (data alpha) i])
                                       [0..<num_pixels])\<rparr>)
      else if channels img = 4 then
        Inr (img\<lparr>data := foldl (\<lambda>d i. d[4 * i + 3 := byte_at (data alpha) i]) (data img)
                                  [0..<num_pixels]\<rparr>)
      else Inl ''Expected image to have 3 or 4 channels'')"

text \<open>
  The canvas the function builds and returns as a PNG data URL: its size, and the image
  drawn onto it at the origin.
\<close>

record canvas =
  canvas_width :: nat
  canvas_height :: nat
  picture :: raw_image

definition and_then :: "string + 'a \<Rightarrow> ('a \<Rightarrow> string + 'b) \<Rightarrow> string + 'b" where
  "and_then r f = (case r of Inl m \<Rightarrow> Inl m | Inr x \<Rightarrow> f x)"

definition call :: "('a \<Rightarrow> string + 'b) option \<Rightarrow> string \<Rightarrow> 'a \<Rightarrow> string + 'b" where
  "call f name x = (case f of None \<Rightarrow> Inl (name @ '' is not a function'') | Some g \<Rightarrow> g x)"

text \<open>
  The \<open>catch\<close> logs and throws the same error again, so an error of any step is the
  function's error. The updates of the page are left out.
\<close>

definition processImageLocally :: "'t vision \<Rightarrow> string \<Rightarrow> string + canvas" where
  "processImageLocally lib url =
     and_then (fromURL lib url) (\<lambda>img.
     and_then (call (processor lib) ''processor'' img) (\<lambda>pixel_values.
     and_then (call (model lib) ''model'' pixel_values) (\<lambda>output.
     and_then (fromTensor lib output) (\<lambda>tensor_image.
     and_then (resize lib tensor_image (image_width img) (image_height img)) (\<lambda>alpha.
     and_then (putAlpha img alpha) (\<lambda>img.
     Inr \<lparr>canvas_width = image_width img, canvas_height = image_height img,
          picture = img\<rparr>))))))"

subsection \<open>An example deployment\<close>

text \<open>
  Concrete surroundings on which the handlers are evaluated: the POSIX \<open>path\<close> functions
  on paths without dot segments or trailing slashes in the file name, a bucket that
  answers for one key, and no faults.
\<close>

definition posix_join :: "string \<Rightarrow> string \<Rightarrow> string" where
  "posix_join a b = (if a \<noteq> [] \<and> last a = CHR ''/'' then a @ b else a @ ''/'' @ b)"

definition posix_basename :: "string \<Rightarrow> string" where
  "posix_basename p = rev (takeWhile (\<lambda>c. c \<noteq> CHR ''/'') (rev p))"

definition posix_extname :: "string \<Rightarrow> string" where
  "posix_extname p =
     (let b = posix_basename p; e = rev (takeWhile (\<lambda>c. c \<noteq> CHR ''.'') (rev b))
      in if CHR ''.'' \<notin> set b \<or> length e + 1 = length b \<or> b = ''..'' then [] else CHR ''.'' # e)"

text \<open>
  The port check of Node's \<open>listen\<close> on ports written in decimal digits; other strings
  are not examined here.
\<close>

fun decimal :: "string \<Rightarrow> nat \<Rightarrow> nat option" where
  "decimal [] n = Some n"
| "decimal (c # cs) n =
     (if c \<in> set ''0123456789'' then decimal cs (10 * n + (of_char c - 48)) else None)"

definition bad_port :: "string \<Rightarrow> string" where
  "bad_port p =
     ''options.port should be >= 0 and < 65536. Received type string ('' @ [CHR 0x27] @ p @
     [CHR 0x27] @ '').''"

definition check_port :: "string \<Rightarrow> string option" where
  "check_port p =
     (case decimal p 0 of
        None \<Rightarrow> None
      | Some n \<Rightarrow> if n \<le> 65535 then None else Some (bad_port p))"

definition example_sys :: sys where
  "example_sys =
     \<lparr>dirname = ''/srv/app'',
      env = Map.empty,
      uuidv4 = ''3f2b8c1e-9d4a-4f6b-8a7c-5e1d2c3b4a59'',
      path_join = posix_join,
      path_isAbsolute = (\<lambda>p. startsWith p ''/''),
      path_basename = posix_basename,
      path_extname = posix_extname,
      fs_write_fault = (\<lambda>p. None),
      fs_unlink_fault = (\<lambda>p. None),
      s3_get = (\<lambda>key. if key = ''uploads/a.png'' then Inr [Data [137, 80], Data [78, 71]]
                       else Inl ''The specified key does not exist.''),
      s3_put_fault = (\<lambda>key. None),
      presign = (\<lambda>key expiresIn. Inr (''https://bucket.example/'' @ key @ ''?signed'')),
      editly_run = (\<lambda>cfg. Inr [0, 0, 0, 24]),
      fetch_url = (\<lambda>url. case url of None \<Rightarrow> Inl ''Failed to parse URL''
                                   | Some u \<Rightarrow> Inr [255, 216, 255]),
      mkdir_fault = (\<lambda>dir. None),
      listen_fault = check_port\<rparr>"

text \<open>A stand-in for the model on a 2 by 1 RGB picture, with \<open>unit\<close> for tensors.\<close>

definition example_vision :: "unit vision" where
  "example_vision =
     \<lparr>fromURL = (\<lambda>url. if url = ''blob:photo'' then
                          Inr \<lparr>image_width = 2, image_height = 1, channels = 3,
                               data = [10, 20, 30, 40, 50, 60]\<rparr>
                        else Inl ''Failed to fetch''),
      processor = Some (\<lambda>img. Inr ()),
      model = Some (\<lambda>pixel_values. Inr ()),
      fromTensor = (\<lambda>t. Inr \<lparr>image_width = 1024, image_height = 1024, channels = 1, data = []\<rparr>),
      resize = (\<lambda>m w h. Inr \<lparr>image_width = w, image_height = h, channels = channels m,
                                data = take (w * h) [255, 0]\<rparr>)\<rparr>"

subsection \<open>The keys the server is said to use\<close>

text \<open>
  The key formats as the specification words them, for the request that stores the
  object: \<open>uploads/<uuid><ext>\<close> for an uploaded image, \<open>uploads/url-image-<uuid>.jpg\<close>
  for an image fetched from a URL, \<open>videos/hosamani-family-video-<videoId>.mp4\<close> for a
  rendered video. They are compared below with the keys of the \<open>PutObject\<close> calls
  the handlers make.
\<close>

definition claimed_key :: "sys \<Rightarrow> request \<Rightarrow> string \<Rightarrow> bool" where
  "claimed_key s r k =
     (case r of
        PostUpload field \<Rightarrow>
          (case field of None \<Rightarrow> False
           | Some file \<Rightarrow> k = ''uploads/'' @ uuidv4 s @ path_extname s (originalname file))
      | PostCreateVideo rq \<Rightarrow> k = ''videos/hosamani-family-video-'' @ uuidv4 s @ ''.mp4''
      | PostUploadUrl url \<Rightarrow> k = ''uploads/url-image-'' @ uuidv4 s @ ''.jpg'')"

subsection \<open>The calls an action makes\<close>

text \<open>
  \<open>calls_within P act\<close>: every call that \<open>act\<close> adds to the list of calls satisfies \<open>P\<close>.
\<close>

definition calls_within :: "(event \<Rightarrow> bool) \<Rightarrow> 'a action \<Rightarrow> bool" where
  "calls_within P act \<longleftrightarrow> (\<forall>w e. e \<in> set (trace (snd (act w))) \<longrightarrow> e \<in> set (trace w) \<or> P e)"

section \<open>Properties\<close>

subsection \<open>Rules for actions\<close>

lemmas action_defs = return_def throw_def bind_def try_catch_def called_def console_error_def

lemmas call_defs = existsSync_def readFileSync_def writeFileSync_def copyFileSync_def
  unlinkSync_def send_GetObject_def send_PutObject_def getSignedUrl_def editly_def
  streamToBuffer_def fetch_def

lemmas handler_defs = serve_def create_video_def render_and_store_def fetch_source_def
  upload_video_def cleanup_def delete_temporary_files_def video_config_def tempDir_def
  BUCKET_NAME_def absoluteImagePath_def

lemmas example_defs = example_sys_def posix_join_def posix_basename_def posix_extname_def
  truthy_def or_default_def startsWith_def substring_def

lemma bind_Inr_iff:
  "bind act f w = (Inr y, w') \<longleftrightarrow> (\<exists>x w1. act w = (Inr x, w1) \<and> f x w1 = (Inr y, w'))"
  by (auto simp: bind_def split: prod.splits sum.splits)

lemma cleanup_returns: "\<exists>w'. cleanup s vp tp w = (Inr (), w')"
  by (auto simp: cleanup_def delete_temporary_files_def action_defs call_defs
      split: prod.splits sum.splits option.splits if_splits)

lemma getSignedUrl_Inr:
  "getSignedUrl s b k t w = (Inr u, w') \<Longrightarrow> presign s k t = Inr u \<and> objects w' = objects w"
  by (auto simp: getSignedUrl_def called_def)

lemma upload_video_Inr:
  "upload_video s vp k w = (Inr x, w') \<Longrightarrow> \<exists>video. objects w' k = Some (video, ''video/mp4'')"
  by (auto simp: upload_video_def action_defs call_defs split: prod.splits sum.splits option.splits)

lemma render_and_store_Inr:
  assumes "render_and_store s rq w = (Inr url, w1)"
  shows "presign s (''videos/hosamani-family-video-'' @ uuidv4 s @ ''.mp4'') 3600 = Inr url \<and>
         (\<exists>video. objects w1 (''videos/hosamani-family-video-'' @ uuidv4 s @ ''.mp4'') =
                    Some (video, ''video/mp4''))"
proof -
  from assms obtain wb wc where
    up: "upload_video s (path_join s (tempDir s) (uuidv4 s @ ''.mp4''))
           (''videos/hosamani-family-video-'' @ uuidv4 s @ ''.mp4'') wb = (Inr (), wc)" and
    sg: "getSignedUrl s (BUCKET_NAME s) (''videos/hosamani-family-video-'' @ uuidv4 s @ ''.mp4'')
           3600 wc = (Inr url, w1)"
    by (auto simp: render_and_store_def Let_def bind_Inr_iff)
  from getSignedUrl_Inr [OF sg] upload_video_Inr [OF up] show ?thesis by simp
qed

lemma create_video_after_success:
  assumes "render_and_store s rq w = (Inr url, w1)"
  shows "fst (create_video s rq w) = Inr (200, VideoBody url (uuidv4 s))"
proof -
  obtain w2 where "cleanup s (path_join s (tempDir s) (uuidv4 s @ ''.mp4''))
      (path_join s (tempDir s) (''temp-image-'' @ uuidv4 s @ ''.png'')) w1 = (Inr (), w2)"
    using cleanup_returns by blast
  with assms show ?thesis
    by (simp add: create_video_def bind_def try_catch_def return_def)
qed

lemma create_video_after_failure:
  assumes "render_and_store s rq w = (Inl m, w1)"
  shows "create_video s rq w =
           (Inr (500, ErrorBody m), w1\<lparr>console := console w1 @ [''Error creating video: '' @ m]\<rparr>)"
  using assms by (simp add: create_video_def action_defs)

subsection \<open>Rules for the calls of an action\<close>

named_theorems within

lemma within_return [within]: "calls_within P (return x)"
  by (simp add: calls_within_def return_def)

lemma within_throw [within]: "calls_within P (throw m)"
  by (simp add: calls_within_def throw_def)

lemma within_console_error [within]: "calls_within P (console_error l)"
  by (simp add: calls_within_def console_error_def)

lemma within_streamToBuffer [within]: "calls_within P (streamToBuffer b)"
  by (simp add: calls_within_def streamToBuffer_def)

lemma within_bind [within]:
  assumes "calls_within P act" and "\<And>x. calls_within P (f x)"
  shows "calls_within P (bind act f)"
  unfolding calls_within_def
proof (intro allI impI)
  fix w e assume e: "e \<in> set (trace (snd (bind act f w)))"
  obtain r w1 where r: "act w = (r, w1)" by (cases "act w")
  show "e \<in> set (trace w) \<or> P e"
  proof (cases r)
    case (Inl m)
    with r e assms(1) show ?thesis by (auto simp: bind_def calls_within_def dest!: spec [of _ w])
  next
    case (Inr x)
    with r e have "e \<in> set (trace (snd (f x w1)))" by (simp add: bind_def)
    with assms(2) [of x] have "e \<in> set (trace w1) \<or> P e" by (auto simp: calls_within_def)
    with assms(1) r show ?thesis by (auto simp: calls_within_def dest!: spec [of _ w])
  qed
qed

lemma within_try_catch [within]:
  assumes "calls_within P act" and "\<And>m. calls_within P (h m)"
  shows "calls_within P (try_catch act h)"
  unfolding calls_within_def
proof (intro allI impI)
  fix w e assume e: "e \<in> set (trace (snd (try_catch act h w)))"
  obtain r w1 where r: "act w = (r, w1)" by (cases "act w")
  show "e \<in> set (trace w) \<or> P e"
  proof (cases r)
    case (Inr x)
    with r e assms(1) show ?thesis by (auto simp: try_catch_def calls_within_def dest!: spec [of _ w])
  next
    case (Inl m)
    with r e have "e \<in> set (trace (snd (h m w1)))" by (simp add: try_catch_def)
    with assms(2) [of m] have "e \<in> set (trace w1) \<or> P e" by (auto simp: calls_within_def)
    with assms(1) r show ?thesis by (auto simp: calls_within_def dest!: spec [of _ w])
  qed
qed

lemma within_if [within]:
  "(c \<Longrightarrow> calls_within P a) \<Longrightarrow> (\<not> c \<Longrightarrow> calls_within P b) \<Longrightarrow> calls_within P (if c then a else b)"
  by simp

lemma within_existsSync [within]: "P (FsExists p) \<Longrightarrow> calls_within P (existsSync p)"
  by (auto simp: calls_within_def existsSync_def called_def)

lemma within_readFileSync [within]: "P (FsRead p) \<Longrightarrow> calls_within P (readFileSync p)"
  by (auto simp: calls_within_def readFileSync_def called_def split: option.splits)

lemma within_writeFileSync [within]: "P (FsWrite p) \<Longrightarrow> calls_within P (writeFileSync s p b)"
  by (auto simp: calls_within_def writeFileSync_def called_def split: option.splits)

lemma within_copyFileSync [within]: "P (FsCopy p q) \<Longrightarrow> calls_within P (copyFileSync s p q)"
  by (auto simp: calls_within_def copyFileSync_def called_def split: option.splits)

lemma within_unlinkSync [within]: "P (FsUnlink p) \<Longrightarrow> calls_within P (unlinkSync s p)"
  by (auto simp: calls_within_def unlinkSync_def called_def split: option.splits)

lemma within_send_GetObject [within]: "P (S3Get b k) \<Longrightarrow> calls_within P (send_GetObject s b k)"
  by (auto simp: calls_within_def send_GetObject_def called_def)

lemma within_send_PutObject [within]: "P (S3Put b k c) \<Longrightarrow> calls_within P (send_PutObject s b k body c)"
  by (auto simp: calls_within_def send_PutObject_def called_def split: option.splits)

lemma within_getSignedUrl [within]: "P (Presign b k t) \<Longrightarrow> calls_within P (getSignedUrl s b k t)"
  by (auto simp: calls_within_def getSignedUrl_def called_def)

lemma within_editly [within]: "P (Editly cfg) \<Longrightarrow> calls_within P (editly s cfg)"
  by (auto simp: calls_within_def editly_def called_def split: sum.splits)

lemma within_fetch [within]: "P (Fetch u) \<Longrightarrow> calls_within P (fetch s u)"
  by (auto simp: calls_within_def fetch_def called_def)

lemma within_serve:
  "calls_within P act \<Longrightarrow> e \<in> set (trace (snd (serve act disk store))) \<Longrightarrow> P e"
  by (auto simp: calls_within_def serve_def dest!: spec [of _ "\<lparr>files = disk, objects = store, console = [], trace = []\<rparr>"])

lemma create_video_calls:
  "calls_within
     (\<lambda>e. (\<forall>cfg. e = Editly cfg \<longrightarrow>
             cfg = video_config (path_join s (tempDir s) (uuidv4 s @ ''.mp4''))
                     (path_join s (dirname s) ''assets/music.m4a'')
                     (path_join s (dirname s) ''assets/video.mp4'')
                     (path_join s (tempDir s) (''temp-image-'' @ uuidv4 s @ ''.png''))) \<and>
           (\<forall>b k c. e = S3Put b k c \<longrightarrow> k = ''videos/hosamani-family-video-'' @ uuidv4 s @ ''.mp4''))
     (create_video s rq)"
  unfolding create_video_def render_and_store_def fetch_source_def upload_video_def cleanup_def
    delete_temporary_files_def Let_def
  by (intro within) simp_all

lemma editly_Inr: "editly s cfg w = (Inr x, w') \<Longrightarrow> Editly cfg \<in> set (trace w')"
  by (auto simp: editly_def called_def split: sum.splits)

lemma upload_video_keeps: "e \<in> set (trace w) \<Longrightarrow> e \<in> set (trace (snd (upload_video s vp k w)))"
  by (auto simp: upload_video_def action_defs call_defs split: prod.splits sum.splits option.splits)

lemma getSignedUrl_keeps: "e \<in> set (trace w) \<Longrightarrow> e \<in> set (trace (snd (getSignedUrl s b k t w)))"
  by (simp add: getSignedUrl_def called_def)

lemma cleanup_keeps: "e \<in> set (trace w) \<Longrightarrow> e \<in> set (trace (snd (cleanup s vp tp w)))"
  by (auto simp: cleanup_def delete_temporary_files_def action_defs call_defs
      split: prod.splits sum.splits option.splits if_splits)

lemma create_video_200:
  assumes "fst (create_video s rq w) = Inr (200, b)"
  shows "\<exists>url w1. render_and_store s rq w = (Inr url, w1) \<and>
           snd (create_video s rq w) =
             snd (cleanup s (path_join s (tempDir s) (uuidv4 s @ ''.mp4''))
                (path_join s (tempDir s) (''temp-image-'' @ uuidv4 s @ ''.png'')) w1)"
  using assms
  by (auto simp: create_video_def action_defs split: prod.splits sum.splits)

lemma render_and_store_rendered:
  assumes "render_and_store s rq w = (Inr url, w1)"
  shows "Editly (video_config (path_join s (tempDir s) (uuidv4 s @ ''.mp4''))
                     (path_join s (dirname s) ''assets/music.m4a'')
                     (path_join s (dirname s) ''assets/video.mp4'')
                     (path_join s (tempDir s) (''temp-image-'' @ uuidv4 s @ ''.png''))) \<in> set (trace w1)"
proof -
  let ?C = "video_config (path_join s (tempDir s) (uuidv4 s @ ''.mp4''))
                     (path_join s (dirname s) ''assets/music.m4a'')
                     (path_join s (dirname s) ''assets/video.mp4'')
                     (path_join s (tempDir s) (''temp-image-'' @ uuidv4 s @ ''.png''))"
  from assms obtain wa wb wc where
    ed: "editly s ?C wa = (Inr (), wb)" and
    up: "upload_video s (path_join s (tempDir s) (uuidv4 s @ ''.mp4''))
           (''videos/hosamani-family-video-'' @ uuidv4 s @ ''.mp4'') wb = (Inr (), wc)" and
    sg: "getSignedUrl s (BUCKET_NAME s) (''videos/hosamani-family-video-'' @ uuidv4 s @ ''.mp4'')
           3600 wc = (Inr url, w1)"
    by (auto simp: render_and_store_def Let_def bind_Inr_iff)
  from editly_Inr [OF ed] have "Editly ?C \<in> set (trace wb)" .
  then have "Editly ?C \<in> set (trace wc)" using upload_video_keeps [of _ wb] up
    by (metis snd_conv)
  then show ?thesis using getSignedUrl_keeps [of _ wc] sg by (metis snd_conv)
qed

subsection \<open>\<open>POST /create-video\<close> without a source\<close>

text \<open>
  C2. When the body of \<open>POST /create-video\<close> supplies neither \<open>s3Key\<close> nor \<open>imagePath\<close>
  (each is absent or the empty string, which the code's test takes for absent), the handler
  answers status 500 with \<open>{success: false, error}\<close>, the error being the missing-source
  message, and has touched nothing: the disk and the bucket are as before and no call to
  \<open>fs\<close>, S3 or editly was made; only the error was logged.
\<close>

theorem create_video_missing_source:
  assumes "\<not> truthy (s3Key rq)" and "\<not> truthy (imagePath rq)"
  shows "serve (create_video s rq) disk store =
           (Inr (500, ErrorBody ''No image source provided (neither S3 key nor local path)''),
            \<lparr>files = disk, objects = store,
             console = [''Error creating video: No image source provided (neither S3 key nor local path)''],
             trace = []\<rparr>)"
  using assms
  by (simp add: serve_def create_video_def render_and_store_def fetch_source_def action_defs Let_def)

theorem create_video_missing_source_witness:
  "\<not> truthy (s3Key \<lparr>imagePath = None, s3Key = None, text_field = Some ''Shlok''\<rparr>) \<and>
   \<not> truthy (imagePath \<lparr>imagePath = None, s3Key = None, text_field = Some ''Shlok''\<rparr>) \<and>
   serve (create_video example_sys \<lparr>imagePath = None, s3Key = None, text_field = Some ''Shlok''\<rparr>)
     Map.empty Map.empty =
     (Inr (500, ErrorBody ''No image source provided (neither S3 key nor local path)''),
      \<lparr>files = Map.empty, objects = Map.empty,
       console = [''Error creating video: No image source provided (neither S3 key nor local path)''],
       trace = []\<rparr>)"
proof -
  let ?rq = "\<lparr>imagePath = None, s3Key = None, text_field = Some ''Shlok''\<rparr>"
  have no_key: "\<not> truthy (s3Key ?rq)" and no_path: "\<not> truthy (imagePath ?rq)"
    by (simp_all add: truthy_def)
  from create_video_missing_source [OF no_key no_path, of example_sys Map.empty Map.empty]
    no_key no_path
  show ?thesis by simp
qed

subsection \<open>The response of \<open>POST /create-video\<close>\<close>

text \<open>
  C6. When everything up to the signing succeeds, \<open>POST /create-video\<close> answers status 200
  with \<open>{success: true, videoUrl, videoId}\<close>, where \<open>videoUrl\<close> is what \<open>getSignedUrl\<close>
  returned for the key \<open>videos/hosamani-family-video-<videoId>.mp4\<close> with \<open>expiresIn\<close> 3600,
  that key holds the video in the bucket, and \<open>videoId\<close> is the generated id. When any
  step throws, the answer is status 500 with \<open>{success: false, error}\<close>, the error being
  the thrown message.
\<close>

theorem create_video_response:
  "(case serve (render_and_store s rq) disk store of
      (Inr url, w1) \<Rightarrow>
         fst (serve (create_video s rq) disk store) = Inr (200, VideoBody url (uuidv4 s)) \<and>
         presign s (''videos/hosamani-family-video-'' @ uuidv4 s @ ''.mp4'') 3600 = Inr url \<and>
         (\<exists>video. objects w1 (''videos/hosamani-family-video-'' @ uuidv4 s @ ''.mp4'') =
                    Some (video, ''video/mp4''))
    | (Inl m, w1) \<Rightarrow> fst (serve (create_video s rq) disk store) = Inr (500, ErrorBody m))"
proof (cases "serve (render_and_store s rq) disk store")
  case (Pair r w1)
  show ?thesis
  proof (cases r)
    case (Inl m)
    with Pair show ?thesis
      using create_video_after_failure [of s rq _ m w1] by (simp add: serve_def)
  next
    case (Inr url)
    with Pair show ?thesis
      using create_video_after_success [of s rq _ url w1] render_and_store_Inr [of s rq _ url w1]
      by (simp add: serve_def)
  qed
qed

subsection \<open>\<open>POST /upload\<close> without a file\<close>

text \<open>
  C10. When \<open>POST /upload\<close> carries no file in the field \<open>image\<close>, reading
  \<open>req.file.path\<close> throws inside the \<open>try\<close> block and the \<open>catch\<close> answers: status 500
  with \<open>{success: false, error}\<close>. Nothing is written to the bucket or the disk, and no
  library call is made.
\<close>

theorem upload_without_file:
  "serve (upload s None) disk store =
     (Inr (500, ErrorBody undefined_path),
      \<lparr>files = disk, objects = store,
       console = [''Error processing image: '' @ undefined_path],
       trace = []\<rparr>)"
  by (simp add: serve_def upload_def upload_single_def upload_handler_def action_defs)

subsection \<open>The composition is fixed\<close>

text \<open>
  C5. Every call of editly made by \<open>POST /create-video\<close> passes the same configuration,
  whatever the request holds: width 480, height 854, 30 frames per second, one clip of
  duration 9 whose layers are the background video with resize mode \<open>cover\<close> and the
  image, shown from second 3 at position (0.5, 0.45) with width and height 10%. Only the
  paths in it vary, with the generated id and the install directory. A request answered
  with status 200 has made that call.
\<close>

theorem composition_is_fixed:
  "(\<forall>cfg. Editly cfg \<in> set (trace (snd (serve (create_video s rq) disk store))) \<longrightarrow>
      cfg = video_config (path_join s (tempDir s) (uuidv4 s @ ''.mp4''))
              (path_join s (dirname s) ''assets/music.m4a'')
              (path_join s (dirname s) ''assets/video.mp4'')
              (path_join s (tempDir s) (''temp-image-'' @ uuidv4 s @ ''.png'')) \<and>
      width cfg = 480 \<and> height cfg = 854 \<and> fps cfg = 30 \<and>
      (\<exists>background overlay.
         clips cfg = [\<lparr>duration = 9, layers = [background, overlay]\<rparr>] \<and>
         layer_type background = Video \<and> resizeMode background = Cover \<and>
         layer_type overlay = Image \<and> start overlay = Some 3 \<and>
         position overlay = At (1 / 2) (9 / 20) \<and>
         layer_width overlay = Some ''10%'' \<and> layer_height overlay = Some ''10%'')) \<and>
   (\<forall>b. fst (serve (create_video s rq) disk store) = Inr (200, b) \<longrightarrow>
      (\<exists>cfg. Editly cfg \<in> set (trace (snd (serve (create_video s rq) disk store)))))"
proof (intro conjI allI impI)
  fix cfg assume "Editly cfg \<in> set (trace (snd (serve (create_video s rq) disk store)))"
  from within_serve [OF create_video_calls this]
  show cfg: "cfg = video_config (path_join s (tempDir s) (uuidv4 s @ ''.mp4''))
              (path_join s (dirname s) ''assets/music.m4a'')
              (path_join s (dirname s) ''assets/video.mp4'')
              (path_join s (tempDir s) (''temp-image-'' @ uuidv4 s @ ''.png''))"
    by simp
  show "width cfg = 480" "height cfg = 854" "fps cfg = 30"
    by (simp_all add: cfg video_config_def)
  show "\<exists>background overlay.
         clips cfg = [\<lparr>duration = 9, layers = [background, overlay]\<rparr>] \<and>
         layer_type background = Video \<and> resizeMode background = Cover \<and>
         layer_type overlay = Image \<and> start overlay = Some 3 \<and>
         position overlay = At (1 / 2) (9 / 20) \<and>
         layer_width overlay = Some ''10%'' \<and> layer_height overlay = Some ''10%''"
    by (simp add: cfg video_config_def)
next
  fix b assume "fst (serve (create_video s rq) disk store) = Inr (200, b)"
  let ?w0 = "\<lparr>files = disk, objects = store, console = [], trace = []\<rparr>"
  let ?C = "video_config (path_join s (tempDir s) (uuidv4 s @ ''.mp4''))
              (path_join s (dirname s) ''assets/music.m4a'')
              (path_join s (dirname s) ''assets/video.mp4'')
              (path_join s (tempDir s) (''temp-image-'' @ uuidv4 s @ ''.png''))"
  from \<open>fst (serve (create_video s rq) disk store) = Inr (200, b)\<close>
  have "fst (create_video s rq ?w0) = Inr (200, b)" by (simp add: serve_def)
  from create_video_200 [OF this] obtain url w1 where
    r: "render_and_store s rq ?w0 = (Inr url, w1)" and
    w: "snd (create_video s rq ?w0) =
          snd (cleanup s (path_join s (tempDir s) (uuidv4 s @ ''.mp4''))
                (path_join s (tempDir s) (''temp-image-'' @ uuidv4 s @ ''.png'')) w1)"
    by blast
  from render_and_store_rendered [OF r] have "Editly ?C \<in> set (trace w1)" .
  then have "Editly ?C \<in> set (trace (snd (create_video s rq ?w0)))"
    unfolding w by (rule cleanup_keeps)
  then show "\<exists>cfg. Editly cfg \<in> set (trace (snd (serve (create_video s rq) disk store)))"
    unfolding serve_def by blast
qed

theorem composition_is_fixed_witness:
  "Editly (video_config ''/srv/app/temp/3f2b8c1e-9d4a-4f6b-8a7c-5e1d2c3b4a59.mp4''
             ''/srv/app/assets/music.m4a'' ''/srv/app/assets/video.mp4''
             ''/srv/app/temp/temp-image-3f2b8c1e-9d4a-4f6b-8a7c-5e1d2c3b4a59.png'')
     \<in> set (trace (snd (serve (create_video example_sys
            \<lparr>imagePath = None, s3Key = Some ''uploads/a.png'', text_field = Some ''wider, please''\<rparr>)
          Map.empty Map.empty))) \<and>
   width (video_config ''/srv/app/temp/3f2b8c1e-9d4a-4f6b-8a7c-5e1d2c3b4a59.mp4''
             ''/srv/app/assets/music.m4a'' ''/srv/app/assets/video.mp4''
             ''/srv/app/temp/temp-image-3f2b8c1e-9d4a-4f6b-8a7c-5e1d2c3b4a59.png'') = 480 \<and>
   fst (serve (create_video example_sys
            \<lparr>imagePath = None, s3Key = Some ''uploads/a.png'', text_field = Some ''wider, please''\<rparr>)
          Map.empty Map.empty) =
     Inr (200, VideoBody
       ''https://bucket.example/videos/hosamani-family-video-3f2b8c1e-9d4a-4f6b-8a7c-5e1d2c3b4a59.mp4?signed''
       ''3f2b8c1e-9d4a-4f6b-8a7c-5e1d2c3b4a59'')"
proof -
  let ?rq = "\<lparr>imagePath = None, s3Key = Some ''uploads/a.png'', text_field = Some ''wider, please''\<rparr>"
  let ?C = "video_config ''/srv/app/temp/3f2b8c1e-9d4a-4f6b-8a7c-5e1d2c3b4a59.mp4''
             ''/srv/app/assets/music.m4a'' ''/srv/app/assets/video.mp4''
             ''/srv/app/temp/temp-image-3f2b8c1e-9d4a-4f6b-8a7c-5e1d2c3b4a59.png''"
  have called: "Editly ?C \<in> set (trace (snd (serve (create_video example_sys ?rq) Map.empty Map.empty)))"
    by (simp add: handler_defs example_defs action_defs call_defs Let_def)
  have answer: "fst (serve (create_video example_sys ?rq) Map.empty Map.empty) =
     Inr (200, VideoBody
       ''https://bucket.example/videos/hosamani-family-video-3f2b8c1e-9d4a-4f6b-8a7c-5e1d2c3b4a59.mp4?signed''
       ''3f2b8c1e-9d4a-4f6b-8a7c-5e1d2c3b4a59'')"
    by (simp add: handler_defs example_defs action_defs call_defs Let_def)
  from composition_is_fixed [of example_sys ?rq Map.empty Map.empty] called
  have "width ?C = 480" by blast
  with called answer show ?thesis by blast
qed

subsection \<open>A failed cleanup\<close>

text \<open>
  C9. When the render, the upload and the signing have succeeded and the deletion of the
  temporary files throws, the error is logged and the response is still status 200 with
  \<open>{success: true, videoUrl, videoId}\<close>.
\<close>

theorem cleanup_failure_not_escalated:
  assumes "fst (serve (render_and_store s rq) disk store) = Inr url"
    and "fst (delete_temporary_files s
               (path_join s (tempDir s) (uuidv4 s @ ''.mp4''))
               (path_join s (tempDir s) (''temp-image-'' @ uuidv4 s @ ''.png''))
               (snd (serve (render_and_store s rq) disk store))) = Inl m"
  shows "fst (serve (create_video s rq) disk store) = Inr (200, VideoBody url (uuidv4 s)) \<and>
         last (console (snd (serve (create_video s rq) disk store))) =
           ''Error cleaning up temporary files: '' @ m"
  using assms
  by (auto simp: serve_def create_video_def cleanup_def action_defs split: prod.splits sum.splits)

theorem cleanup_failure_not_escalated_witness:
  "fst (serve (create_video
          (example_sys\<lparr>fs_unlink_fault := (\<lambda>p. Some ''EPERM: operation not permitted, unlink'')\<rparr>)
          \<lparr>imagePath = None, s3Key = Some ''uploads/a.png'', text_field = None\<rparr>)
        Map.empty Map.empty) =
     Inr (200, VideoBody
       ''https://bucket.example/videos/hosamani-family-video-3f2b8c1e-9d4a-4f6b-8a7c-5e1d2c3b4a59.mp4?signed''
       ''3f2b8c1e-9d4a-4f6b-8a7c-5e1d2c3b4a59'') \<and>
   last (console (snd (serve (create_video
          (example_sys\<lparr>fs_unlink_fault := (\<lambda>p. Some ''EPERM: operation not permitted, unlink'')\<rparr>)
          \<lparr>imagePath = None, s3Key = Some ''uploads/a.png'', text_field = None\<rparr>)
        Map.empty Map.empty))) =
     ''Error cleaning up temporary files: EPERM: operation not permitted, unlink''"
proof -
  let ?s = "example_sys\<lparr>fs_unlink_fault := (\<lambda>p. Some ''EPERM: operation not permitted, unlink'')\<rparr>"
  let ?rq = "\<lparr>imagePath = None, s3Key = Some ''uploads/a.png'', text_field = None\<rparr>"
  have primary: "fst (serve (render_and_store ?s ?rq) Map.empty Map.empty) =
      Inr ''https://bucket.example/videos/hosamani-family-video-3f2b8c1e-9d4a-4f6b-8a7c-5e1d2c3b4a59.mp4?signed''"
    by (simp add: handler_defs example_defs action_defs call_defs Let_def)
  have failing: "fst (delete_temporary_files ?s
               (path_join ?s (tempDir ?s) (uuidv4 ?s @ ''.mp4''))
               (path_join ?s (tempDir ?s) (''temp-image-'' @ uuidv4 ?s @ ''.png''))
               (snd (serve (render_and_store ?s ?rq) Map.empty Map.empty))) =
      Inl ''EPERM: operation not permitted, unlink''"
    by (simp add: handler_defs example_defs action_defs call_defs Let_def)
  from cleanup_failure_not_escalated [OF primary failing] show ?thesis by (simp add: example_sys_def)
qed

subsection \<open>Temporary files after a failure\<close>

text \<open>
  C1. The specification asks that the temporary image and video of a call be gone on
  every exit path. The code deletes them only at the end of the \<open>try\<close> block; the
  \<open>catch\<close> deletes nothing. In the example deployment with an editly that throws, the
  request for the stored key \<open>uploads/a.png\<close> is answered with status 500 and the
  temporary image is still on disk afterwards.
\<close>

theorem render_failure_leaves_temp_image:
  "fst (serve (create_video (example_sys\<lparr>editly_run := (\<lambda>cfg. Inl ''ffmpeg exited with code 1'')\<rparr>)
            \<lparr>imagePath = None, s3Key = Some ''uploads/a.png'', text_field = None\<rparr>)
         Map.empty Map.empty) = Inr (500, ErrorBody ''ffmpeg exited with code 1'') \<and>
   files (snd (serve (create_video (example_sys\<lparr>editly_run := (\<lambda>cfg. Inl ''ffmpeg exited with code 1'')\<rparr>)
            \<lparr>imagePath = None, s3Key = Some ''uploads/a.png'', text_field = None\<rparr>)
         Map.empty Map.empty))
     ''/srv/app/temp/temp-image-3f2b8c1e-9d4a-4f6b-8a7c-5e1d2c3b4a59.png'' = Some [137, 80, 78, 71]"
  by (simp add: handler_defs example_defs action_defs call_defs Let_def)

text \<open>
  The same with an upload that fails: the rendered video stays on disk.
\<close>

theorem upload_failure_leaves_video:
  "fst (serve (create_video (example_sys\<lparr>s3_put_fault := (\<lambda>key. Some ''connect ETIMEDOUT'')\<rparr>)
            \<lparr>imagePath = None, s3Key = Some ''uploads/a.png'', text_field = None\<rparr>)
         Map.empty Map.empty) = Inr (500, ErrorBody ''Failed to upload video to S3: connect ETIMEDOUT'') \<and>
   files (snd (serve (create_video (example_sys\<lparr>s3_put_fault := (\<lambda>key. Some ''connect ETIMEDOUT'')\<rparr>)
            \<lparr>imagePath = None, s3Key = Some ''uploads/a.png'', text_field = None\<rparr>)
         Map.empty Map.empty))
     ''/srv/app/temp/3f2b8c1e-9d4a-4f6b-8a7c-5e1d2c3b4a59.mp4'' = Some [0, 0, 0, 24]"
  by (simp add: handler_defs example_defs action_defs call_defs Let_def)

text \<open>
  On the path that succeeds, with deletions that do not fail, both files are gone.
\<close>

lemma success_removes_temporary_files:
  assumes "fst (serve (render_and_store s rq) disk store) = Inr url"
    and "fs_unlink_fault s (path_join s (tempDir s) (uuidv4 s @ ''.mp4'')) = None"
    and "fs_unlink_fault s (path_join s (tempDir s) (''temp-image-'' @ uuidv4 s @ ''.png'')) = None"
  shows "files (snd (serve (create_video s rq) disk store))
           (path_join s (tempDir s) (uuidv4 s @ ''.mp4'')) = None \<and>
         files (snd (serve (create_video s rq) disk store))
           (path_join s (tempDir s) (''temp-image-'' @ uuidv4 s @ ''.png'')) = None"
  using assms
  by (auto simp: serve_def create_video_def cleanup_def delete_temporary_files_def action_defs
      existsSync_def unlinkSync_def split: prod.splits sum.splits option.splits if_splits)

subsection \<open>Which source is read\<close>



subsection \<open>The keys of stored objects\<close>

text \<open>
  The keys of the \<open>PutObject\<close> calls of each route.
\<close>

lemma uuid_length: "is_uuid u \<Longrightarrow> length u = 36"
  by (auto simp: is_uuid_def dest: list_all2_lengthD)

lemma uuid_first: "is_uuid u \<Longrightarrow> \<exists>c cs. u = c # cs \<and> hex_digit c"
  by (auto simp: is_uuid_def list_all2_Cons2 uuid_char_def)

lemma hex_digit_not_u: "hex_digit c \<Longrightarrow> c \<noteq> CHR ''u''"
  by (auto simp: hex_digit_def)

lemma upload_puts:
  assumes "S3Put b k c \<in> set (trace (snd (serve (upload s field) disk store)))"
  shows "\<exists>file. field = Some file \<and>
           k = ''uploads/'' @ path_basename s (path_join s ''uploads/'' (filename s file))"
  using assms
  by (auto simp: serve_def upload_def upload_single_def upload_handler_def action_defs call_defs
      split: prod.splits sum.splits option.splits if_splits)

lemma upload_url_calls:
  "calls_within (\<lambda>e. \<forall>b k c. e = S3Put b k c \<longrightarrow> k = ''uploads/url-image-'' @ uuidv4 s @ ''.jpg'')
     (upload_url s url)"
  unfolding upload_url_def Let_def
  by (intro within) simp_all

lemma upload_url_puts:
  assumes "S3Put b k c \<in> set (trace (snd (serve (upload_url s url) disk store)))"
  shows "k = ''uploads/url-image-'' @ uuidv4 s @ ''.jpg''"
  using within_serve [OF upload_url_calls assms] by simp

lemma create_video_puts:
  assumes "S3Put b k c \<in> set (trace (snd (serve (create_video s rq) disk store)))"
  shows "k = ''videos/hosamani-family-video-'' @ uuidv4 s @ ''.mp4''"
  using within_serve [OF create_video_calls assms] by simp

lemma route_puts:
  assumes "\<forall>file. r = PostUpload (Some file) \<longrightarrow>
             path_basename s (path_join s ''uploads/'' (filename s file)) = filename s file"
    and "S3Put b k c \<in> set (trace (snd (serve (route s r) disk store)))"
  shows "claimed_key s r k"
proof (cases r)
  case (PostUpload field)
  with assms(2) upload_puts [of b k c s field disk store] obtain f where
    "field = Some f" "k = ''uploads/'' @ path_basename s (path_join s ''uploads/'' (filename s f))"
    by auto
  with assms(1) PostUpload show ?thesis by (simp add: claimed_key_def filename_def)
next
  case (PostCreateVideo rq)
  with assms(2) create_video_puts [of b k c s rq disk store] show ?thesis by (simp add: claimed_key_def)
next
  case (PostUploadUrl url)
  with assms(2) upload_url_puts [of b k c s url disk store] show ?thesis by (simp add: claimed_key_def)
qed

lemma keys_differ:
  assumes "is_uuid (uuidv4 s1)" "is_uuid (uuidv4 s2)" "uuidv4 s1 \<noteq> uuidv4 s2"
    and "claimed_key s1 r1 k1" "claimed_key s2 r2 k2"
  shows "k1 \<noteq> k2"
proof -
  have len: "length (uuidv4 s1) = length (uuidv4 s2)"
    using assms(1,2) by (simp add: uuid_length)
  obtain c1 cs1 where u1: "uuidv4 s1 = c1 # cs1" "c1 \<noteq> CHR ''u''"
    using uuid_first [OF assms(1)] hex_digit_not_u by blast
  obtain c2 cs2 where u2: "uuidv4 s2 = c2 # cs2" "c2 \<noteq> CHR ''u''"
    using uuid_first [OF assms(2)] hex_digit_not_u by blast
  show ?thesis
  proof (cases r1)
    case a: (PostUpload f1)
    show ?thesis
    proof (cases r2)
      case (PostUpload f2)
      with a assms(3-5) len show ?thesis
        by (auto simp: claimed_key_def split: option.splits)
    next
      case (PostCreateVideo q2)
      with a assms(4,5) show ?thesis by (auto simp: claimed_key_def split: option.splits)
    next
      case (PostUploadUrl x2)
      with a assms(4,5) u1 show ?thesis by (auto simp: claimed_key_def split: option.splits)
    qed
  next
    case a: (PostCreateVideo q1)
    show ?thesis
    proof (cases r2)
      case (PostUpload f2)
      with a assms(4,5) show ?thesis by (auto simp: claimed_key_def split: option.splits)
    next
      case (PostCreateVideo q2)
      with a assms(3-5) show ?thesis by (auto simp: claimed_key_def)
    next
      case (PostUploadUrl x2)
      with a assms(4,5) show ?thesis by (auto simp: claimed_key_def)
    qed
  next
    case a: (PostUploadUrl x1)
    show ?thesis
    proof (cases r2)
      case (PostUpload f2)
      with a assms(4,5) u2 show ?thesis by (auto simp: claimed_key_def split: option.splits)
    next
      case (PostCreateVideo q2)
      with a assms(4,5) show ?thesis by (auto simp: claimed_key_def)
    next
      case (PostUploadUrl x2)
      with a assms(3-5) show ?thesis by (auto simp: claimed_key_def)
    qed
  qed
qed

text \<open>
  C4. Every object a request stores has a key with the token generated for that request:
  \<open>uploads/<uuid><ext>\<close> for an upload, \<open>uploads/url-image-<uuid>.jpg\<close> for a URL fetch,
  \<open>videos/hosamani-family-video-<videoId>.mp4\<close> for a render. Two requests whose tokens
  are distinct version 4 UUIDs never store under the same key, whatever the routes. For
  an upload, \<open>path.basename\<close> is assumed to give back the file name that multer joined to
  \<open>uploads/\<close>.
\<close>

theorem stored_keys_do_not_collide:
  assumes "is_uuid (uuidv4 s1)" and "is_uuid (uuidv4 s2)" and "uuidv4 s1 \<noteq> uuidv4 s2"
    and "\<forall>file. r1 = PostUpload (Some file) \<longrightarrow>
           path_basename s1 (path_join s1 ''uploads/'' (filename s1 file)) = filename s1 file"
    and "\<forall>file. r2 = PostUpload (Some file) \<longrightarrow>
           path_basename s2 (path_join s2 ''uploads/'' (filename s2 file)) = filename s2 file"
    and "S3Put b1 k1 c1 \<in> set (trace (snd (serve (route s1 r1) disk1 store1)))"
    and "S3Put b2 k2 c2 \<in> set (trace (snd (serve (route s2 r2) disk2 store2)))"
  shows "claimed_key s1 r1 k1 \<and> claimed_key s2 r2 k2 \<and> k1 \<noteq> k2"
proof -
  from assms(4,6) have one: "claimed_key s1 r1 k1" by (rule route_puts)
  from assms(5,7) have two: "claimed_key s2 r2 k2" by (rule route_puts)
  from keys_differ [OF assms(1-3) one two] one two show ?thesis by simp
qed

theorem stored_keys_do_not_collide_witness:
  "claimed_key example_sys
     (PostUpload (Some \<lparr>originalname = ''processed-image.png'', content = [137, 80]\<rparr>))
     ''uploads/3f2b8c1e-9d4a-4f6b-8a7c-5e1d2c3b4a59.png'' \<and>
   claimed_key (example_sys\<lparr>uuidv4 := ''0c9d4e7a-1b2c-4d3e-9f4a-5b6c7d8e9f01''\<rparr>)
     (PostUploadUrl (Some ''https://images.example/cat.jpg''))
     ''uploads/url-image-0c9d4e7a-1b2c-4d3e-9f4a-5b6c7d8e9f01.jpg'' \<and>
   ''uploads/3f2b8c1e-9d4a-4f6b-8a7c-5e1d2c3b4a59.png'' \<noteq>
     ''uploads/url-image-0c9d4e7a-1b2c-4d3e-9f4a-5b6c7d8e9f01.jpg''"
proof -
  let ?s2 = "example_sys\<lparr>uuidv4 := ''0c9d4e7a-1b2c-4d3e-9f4a-5b6c7d8e9f01''\<rparr>"
  let ?r1 = "PostUpload (Some \<lparr>originalname = ''processed-image.png'', content = [137, 80]\<rparr>)"
  let ?r2 = "PostUploadUrl (Some ''https://images.example/cat.jpg'')"
  have u1: "is_uuid (uuidv4 example_sys)"
    by (simp add: is_uuid_def uuid_char_def hex_digit_def example_sys_def)
  have u2: "is_uuid (uuidv4 ?s2)"
    by (simp add: is_uuid_def uuid_char_def hex_digit_def)
  have d: "uuidv4 example_sys \<noteq> uuidv4 ?s2" by (simp add: example_sys_def)
  have n1: "\<forall>file. ?r1 = PostUpload (Some file) \<longrightarrow>
      path_basename example_sys (path_join example_sys ''uploads/'' (filename example_sys file)) =
      filename example_sys file"
    by (simp add: filename_def example_defs Let_def)
  have n2: "\<forall>file. ?r2 = PostUpload (Some file) \<longrightarrow>
      path_basename ?s2 (path_join ?s2 ''uploads/'' (filename ?s2 file)) = filename ?s2 file"
    by simp
  have p1: "S3Put ''your-bucket-name'' ''uploads/3f2b8c1e-9d4a-4f6b-8a7c-5e1d2c3b4a59.png'' ''image/png''
      \<in> set (trace (snd (serve (route example_sys ?r1) Map.empty Map.empty)))"
    by (simp add: serve_def upload_def upload_single_def upload_handler_def filename_def
        BUCKET_NAME_def example_defs action_defs call_defs Let_def)
  have p2: "S3Put ''your-bucket-name'' ''uploads/url-image-0c9d4e7a-1b2c-4d3e-9f4a-5b6c7d8e9f01.jpg''
      ''image/jpeg'' \<in> set (trace (snd (serve (route ?s2 ?r2) Map.empty Map.empty)))"
    by (simp add: serve_def upload_url_def uploadsDir_def BUCKET_NAME_def example_defs action_defs
        call_defs Let_def)
  from stored_keys_do_not_collide [OF u1 u2 d n1 n2 p1 p2] show ?thesis .
qed

subsection \<open>Start without the environment variables\<close>

lemmas startup_defs = startup_def port_def BUCKET_NAME_def uploadsDir_def tempDir_def
  or_default_def Let_def

text \<open>
  Startup can fail: in the example deployment with \<open>PORT=99999\<close> the call of \<open>listen\<close>
  throws.
\<close>

lemma startup_with_bad_port:
  "startup (example_sys\<lparr>env := [''PORT'' \<mapsto> ''99999'']\<rparr>) = Inl (bad_port ''99999'')"
  by (simp add: startup_defs example_sys_def check_port_def)

text \<open>
  C7. The specification asks that the server fail at startup with a configuration error
  when one of \<open>AWS_REGION\<close>, \<open>AWS_ACCESS_KEY_ID\<close>, \<open>AWS_SECRET_ACCESS_KEY\<close>, \<open>S3_BUCKET_NAME\<close> is
  absent. With all four absent the module loads without an error: the region and the
  bucket name take their defaults and the credentials are undefined.
\<close>

theorem startup_without_environment:
  "env example_sys ''AWS_REGION'' = None \<and>
   env example_sys ''AWS_ACCESS_KEY_ID'' = None \<and>
   env example_sys ''AWS_SECRET_ACCESS_KEY'' = None \<and>
   env example_sys ''S3_BUCKET_NAME'' = None \<and>
   startup example_sys =
     Inr \<lparr>listen_port = ''3000'',
          s3Client = \<lparr>region = ''us-east-1'', accessKeyId = None, secretAccessKey = None\<rparr>,
          bucket = ''your-bucket-name''\<rparr>"
  by (simp add: startup_defs example_sys_def check_port_def)

text \<open>
  C7, as the code has it. The four variables are never checked. Whether startup fails,
  and with which error, is the same whatever they hold, present or absent: it fails only
  when creating a directory or listening on the port throws. When the server starts, an
  absent \<open>AWS_REGION\<close> has become \<open>us-east-1\<close>, an absent \<open>S3_BUCKET_NAME\<close> has become
  \<open>your-bucket-name\<close>, and the two credentials are handed to the S3 client as they are
  found, absent or not.
\<close>

theorem startup_ignores_aws_variables:
  "(\<forall>m. startup (s\<lparr>env := (env s)(''AWS_REGION'' := r, ''AWS_ACCESS_KEY_ID'' := a,
                                     ''AWS_SECRET_ACCESS_KEY'' := k, ''S3_BUCKET_NAME'' := b)\<rparr>) = Inl m
        \<longleftrightarrow> startup s = Inl m) \<and>
   (\<forall>m. startup s = Inl m \<longrightarrow>
        mkdir_fault s (uploadsDir s) = Some m \<or> mkdir_fault s (tempDir s) = Some m \<or>
        listen_fault s (port s) = Some m) \<and>
   (\<forall>srv. startup s = Inr srv \<longrightarrow>
        (env s ''AWS_REGION'' = None \<longrightarrow> region (s3Client srv) = ''us-east-1'') \<and>
        (env s ''S3_BUCKET_NAME'' = None \<longrightarrow> bucket srv = ''your-bucket-name'') \<and>
        accessKeyId (s3Client srv) = env s ''AWS_ACCESS_KEY_ID'' \<and>
        secretAccessKey (s3Client srv) = env s ''AWS_SECRET_ACCESS_KEY'')"
proof (intro conjI allI impI)
  fix m
  show "startup (s\<lparr>env := (env s)(''AWS_REGION'' := r, ''AWS_ACCESS_KEY_ID'' := a,
                                 ''AWS_SECRET_ACCESS_KEY'' := k, ''S3_BUCKET_NAME'' := b)\<rparr>) = Inl m
        \<longleftrightarrow> startup s = Inl m"
    by (simp add: startup_def port_def uploadsDir_def tempDir_def Let_def
        split: option.splits)
next
  fix m assume "startup s = Inl m"
  then show "mkdir_fault s (uploadsDir s) = Some m \<or> mkdir_fault s (tempDir s) = Some m \<or>
        listen_fault s (port s) = Some m"
    by (auto simp: startup_def Let_def split: option.splits)
next
  fix srv assume started: "startup s = Inr srv"
  then have srv: "srv = \<lparr>listen_port = port s,
       s3Client = \<lparr>region = or_default (env s ''AWS_REGION'') ''us-east-1'',
                   accessKeyId = env s ''AWS_ACCESS_KEY_ID'',
                   secretAccessKey = env s ''AWS_SECRET_ACCESS_KEY''\<rparr>,
       bucket = BUCKET_NAME s\<rparr>"
    by (auto simp: startup_def Let_def split: option.splits)
  show "accessKeyId (s3Client srv) = env s ''AWS_ACCESS_KEY_ID''"
    and "secretAccessKey (s3Client srv) = env s ''AWS_SECRET_ACCESS_KEY''"
    by (simp_all add: srv)
  {
    assume "env s ''AWS_REGION'' = None"
    then show "region (s3Client srv) = ''us-east-1''" by (simp add: srv or_default_def)
  }
  {
    assume "env s ''S3_BUCKET_NAME'' = None"
    then show "bucket srv = ''your-bucket-name''" by (simp add: srv BUCKET_NAME_def or_default_def)
  }
qed

theorem startup_ignores_aws_variables_witness:
  "startup (example_sys\<lparr>env := [''PORT'' \<mapsto> ''99999'', ''AWS_REGION'' \<mapsto> ''eu-west-1'']\<rparr>) =
     Inl (bad_port ''99999'') \<and>
   (\<exists>srv. startup example_sys = Inr srv \<and> region (s3Client srv) = ''us-east-1'' \<and>
      bucket srv = ''your-bucket-name'' \<and> accessKeyId (s3Client srv) = None)"
proof -
  let ?s = "example_sys\<lparr>env := [''PORT'' \<mapsto> ''99999'']\<rparr>"
  have failed: "startup ?s = Inl (bad_port ''99999'')"
    by (simp add: startup_defs example_sys_def check_port_def)
  have same: "?s\<lparr>env := (env ?s)(''AWS_REGION'' := Some ''eu-west-1'', ''AWS_ACCESS_KEY_ID'' := None,
                                  ''AWS_SECRET_ACCESS_KEY'' := None, ''S3_BUCKET_NAME'' := None)\<rparr> =
      example_sys\<lparr>env := [''PORT'' \<mapsto> ''99999'', ''AWS_REGION'' \<mapsto> ''eu-west-1'']\<rparr>"
    by (auto simp: example_sys_def fun_eq_iff)
  from startup_ignores_aws_variables
      [of ?s "Some ''eu-west-1''" None None None] failed
  have one: "startup (example_sys\<lparr>env := [''PORT'' \<mapsto> ''99999'', ''AWS_REGION'' \<mapsto> ''eu-west-1'']\<rparr>) =
      Inl (bad_port ''99999'')"
    unfolding same by blast
  have started: "startup example_sys =
     Inr \<lparr>listen_port = ''3000'',
          s3Client = \<lparr>region = ''us-east-1'', accessKeyId = None, secretAccessKey = None\<rparr>,
          bucket = ''your-bucket-name''\<rparr>"
    by (simp add: startup_defs example_sys_def check_port_def)
  have absent: "env example_sys ''AWS_REGION'' = None" "env example_sys ''S3_BUCKET_NAME'' = None"
    "env example_sys ''AWS_ACCESS_KEY_ID'' = None"
    by (simp_all add: example_sys_def)
  from startup_ignores_aws_variables [of example_sys None None None None] started absent
  have two: "\<exists>srv. startup example_sys = Inr srv \<and> region (s3Client srv) = ''us-east-1'' \<and>
      bucket srv = ''your-bucket-name'' \<and> accessKeyId (s3Client srv) = None"
    by auto
  from one two show ?thesis by simp
qed

subsection \<open>Background removal keeps the size and adds the alpha channel\<close>

lemma length_rgba: "length (concat (map (\<lambda>i. [f i, g i, h i, a i]) [0..<n])) = 4 * n"
  by (induction n) simp_all

lemma alpha_of_rgba:
  "i < n \<Longrightarrow> concat (map (\<lambda>i. [f i, g i, h i, a i]) [0..<n]) ! (4 * i + 3) = a i"
proof (induction n)
  case 0
  then show ?case by simp
next
  case (Suc n)
  show ?case
  proof (cases "i < n")
    case True
    with Suc.IH show ?thesis by (simp add: nth_append length_rgba)
  next
    case False
    with Suc.prems have "i = n" by simp
    then show ?thesis by (simp add: nth_append length_rgba)
  qed
qed

lemma length_overwrite:
  "length (foldl (\<lambda>d i. d[4 * i + 3 := a i]) d [0..<n]) = length d"
  by (induction n) simp_all

lemma alpha_of_overwrite:
  "i < n \<Longrightarrow> 4 * n \<le> length d \<Longrightarrow> foldl (\<lambda>d i. d[4 * i + 3 := a i]) d [0..<n] ! (4 * i + 3) = a i"
proof (induction n)
  case 0
  then show ?case by simp
next
  case (Suc n)
  show ?case
  proof (cases "i < n")
    case True
    with Suc show ?thesis by (simp add: length_overwrite)
  next
    case False
    with Suc.prems have "i = n" by simp
    with Suc.prems show ?thesis by (simp add: length_overwrite)
  qed
qed

lemma putAlpha_result:
  assumes size: "image_width alpha = image_width img" "image_height alpha = image_height img"
    and one: "channels alpha = 1"
    and colour: "channels img = 3 \<or> channels img = 4"
  shows "\<exists>out. putAlpha img alpha = Inr out \<and>
           image_width out = image_width img \<and> image_height out = image_height img \<and>
           channels out = 4 \<and>
           (length (data img) = image_width img * image_height img * channels img \<longrightarrow>
              length (data out) = image_width img * image_height img * 4 \<and>
              (\<forall>i < image_width img * image_height img.
                 data out ! (4 * i + 3) = byte_at (data alpha) i))"
  using assms
  by (auto simp: putAlpha_def Let_def length_rgba alpha_of_rgba length_overwrite alpha_of_overwrite)

text \<open>
  C8. For an image that \<open>RawImage.fromURL\<close> decodes, RGB or RGBA, with the model loaded
  and each library call succeeding, where \<open>resize\<close> returns a mask of the size it was
  asked for, \<open>processImageLocally\<close> returns a canvas of the input's width and height;
  the picture on it has the same size and four channels, and the alpha byte of each
  pixel is the byte of the resized mask, also when the input had three channels.
\<close>

theorem background_removed_keeps_size:
  assumes "fromURL lib url = Inr img"
    and "channels img = 3 \<or> channels img = 4"
    and "length (data img) = image_width img * image_height img * channels img"
    and "processor lib = Some preprocess" and "preprocess img = Inr pixel_values"
    and "model lib = Some predict" and "predict pixel_values = Inr output"
    and "fromTensor lib output = Inr matte" and "channels matte = 1"
    and "resize lib matte (image_width img) (image_height img) = Inr alpha"
    and "image_width alpha = image_width img" and "image_height alpha = image_height img"
    and "channels alpha = channels matte"
    and "length (data alpha) = image_width img * image_height img"
  shows "\<exists>out. processImageLocally lib url = Inr out \<and>
           canvas_width out = image_width img \<and> canvas_height out = image_height img \<and>
           image_width (picture out) = image_width img \<and>
           image_height (picture out) = image_height img \<and>
           channels (picture out) = 4 \<and>
           (\<forall>i < image_width img * image_height img.
              data (picture out) ! (4 * i + 3) = data alpha ! i)"
proof -
  from putAlpha_result [of alpha img] assms obtain out where
    out: "putAlpha img alpha = Inr out" "image_width out = image_width img"
      "image_height out = image_height img" "channels out = 4"
      "\<forall>i < image_width img * image_height img. data out ! (4 * i + 3) = byte_at (data alpha) i"
    by auto
  have "processImageLocally lib url =
          Inr \<lparr>canvas_width = image_width out, canvas_height = image_height out, picture = out\<rparr>"
    using assms out(1) by (simp add: processImageLocally_def and_then_def call_def)
  with out assms(14) show ?thesis by (simp add: byte_at_def)
qed

theorem background_removed_keeps_size_witness:
  "\<exists>out. processImageLocally example_vision ''blob:photo'' = Inr out \<and>
     canvas_width out = 2 \<and> canvas_height out = 1 \<and> channels (picture out) = 4 \<and>
     (\<forall>i < 2. data (picture out) ! (4 * i + 3) = [255, 0] ! i)"
proof -
  let ?img = "\<lparr>image_width = 2, image_height = 1, channels = 3, data = [10, 20, 30, 40, 50, 60]\<rparr>"
  let ?matte = "\<lparr>image_width = 1024, image_height = 1024, channels = 1, data = []\<rparr>"
  let ?alpha = "\<lparr>image_width = 2, image_height = 1, channels = 1, data = [255, 0]\<rparr>"
  have "\<exists>out. processImageLocally example_vision ''blob:photo'' = Inr out \<and>
           canvas_width out = image_width ?img \<and> canvas_height out = image_height ?img \<and>
           image_width (picture out) = image_width ?img \<and>
           image_height (picture out) = image_height ?img \<and>
           channels (picture out) = 4 \<and>
           (\<forall>i < image_width ?img * image_height ?img.
              data (picture out) ! (4 * i + 3) = data ?alpha ! i)"
  proof (rule background_removed_keeps_size
      [of example_vision "''blob:photo''" ?img "\<lambda>image. Inr ()" "()" "\<lambda>pixel_values. Inr ()" "()"
        ?matte ?alpha])
  qed (simp_all add: example_vision_def)
  then show ?thesis by auto
qed

end
